theory Spec2Isabelle
  imports Main
begin

section \<open>Python values and the primitives the schedule generator uses\<close>

text \<open>
  The source is \<^verbatim>\<open>src/schedule_generator.py\<close>. Python is dynamically typed and
  \<^verbatim>\<open>load_data\<close> stores whatever the JSON document holds, so the values kept in a
  \<^verbatim>\<open>ScheduleGenerator\<close> are modelled as Python values, not by their annotations.

  \<^item> Strings are \<open>string\<close> (lists of 8-bit characters); Python's strings are Unicode, so
    the model covers ASCII text.
  \<^item> Numbers are Python's unbounded integers; floating point numbers are left out.
  \<^item> Dictionaries are association lists in insertion order; every dictionary of the
    program has string keys. A lookup takes the first pair with the key, and the
    operations that build dictionaries keep the keys distinct.
  \<^item> Lists and dictionaries are never mutated in place by any method of the class, so
    they are values. \<^verbatim>\<open>Shift\<close> objects are mutated in place
    (\<^verbatim>\<open>assign_employee_to_shift\<close>), so they live in a store and a value refers to
    one by its address (\<open>PShift a\<close>).
\<close>

datatype error =
  TypeError | KeyError | IndexError | AttributeError | ValueError | OverflowError

datatype 'a outcome = Returned 'a | Raised error

datatype pyval =
    PNone
  | PBool bool
  | PInt int
  | PStr string
  | PList "pyval list"
  | PDict "(string \<times> pyval) list"
  | PShift nat

text \<open>\<^verbatim>\<open>@dataclass class Shift\<close>: the fields are set by the caller that builds the
  object and \<open>employee_id\<close> by \<^verbatim>\<open>assign_employee_to_shift\<close>, always from strings.\<close>

record shift =
  start_time :: string
  end_time :: string
  position :: string
  employee_id :: "string option"

text \<open>\<^verbatim>\<open>Shift(start, end, position)\<close>: \<open>employee_id\<close> defaults to \<open>None\<close>.\<close>

definition Shift :: "string \<Rightarrow> string \<Rightarrow> string \<Rightarrow> shift" where
  "Shift st en pos = \<lparr>start_time = st, end_time = en, position = pos, employee_id = None\<rparr>"

text \<open>\<^verbatim>\<open>@dataclass class Employee\<close>. \<^verbatim>\<open>load_data\<close> builds employees from JSON without
  checking the types of the fields, so a field holds any Python value.\<close>

record employee =
  name :: pyval
  id :: pyval
  department :: pyval
  max_hours_per_week :: pyval
  available_days :: pyval

definition default_available_days :: pyval where
  "default_available_days =
     PList [PStr ''Monday'', PStr ''Tuesday'', PStr ''Wednesday'', PStr ''Thursday'',
            PStr ''Friday'']"

text \<open>The generated \<^verbatim>\<open>__init__\<close> followed by \<^verbatim>\<open>__post_init__\<close>: a \<open>None\<close> for
  \<open>available_days\<close> becomes Monday to Friday.\<close>

definition Employee :: "pyval \<Rightarrow> pyval \<Rightarrow> pyval \<Rightarrow> pyval \<Rightarrow> pyval \<Rightarrow> employee" where
  "Employee n i d m a =
     \<lparr>name = n, id = i, department = d, max_hours_per_week = m,
      available_days = (if a = PNone then default_available_days else a)\<rparr>"

text \<open>The state of the program: the two attributes of the \<^verbatim>\<open>ScheduleGenerator\<close> and
  the store of \<^verbatim>\<open>Shift\<close> objects, which the generator shares with its caller.\<close>

record state =
  employees :: "employee list"
  schedule :: pyval
  store :: "nat \<Rightarrow> shift"

text \<open>\<^verbatim>\<open>ScheduleGenerator.__init__\<close>\<close>

definition init :: "(nat \<Rightarrow> shift) \<Rightarrow> state" where
  "init h = \<lparr>employees = [], schedule = PDict [], store = h\<rparr>"

subsection \<open>Equality, membership, subscripts, length, iteration, truth\<close>

text \<open>Python's \<^verbatim>\<open>==\<close>. \<open>True\<close> equals \<open>1\<close>; lists compare element by element;
  dictionaries compare as mappings, whatever the order; a dataclass with the default
  \<^verbatim>\<open>eq=True\<close> compares its fields.\<close>

function py_eq :: "(nat \<Rightarrow> shift) \<Rightarrow> pyval \<Rightarrow> pyval \<Rightarrow> bool" where
  "py_eq h PNone y = (y = PNone)"
| "py_eq h (PBool a) y =
     (case y of PBool b \<Rightarrow> a = b | PInt b \<Rightarrow> (if a then 1 else 0) = b | _ \<Rightarrow> False)"
| "py_eq h (PInt a) y =
     (case y of PBool b \<Rightarrow> a = (if b then 1 else 0) | PInt b \<Rightarrow> a = b | _ \<Rightarrow> False)"
| "py_eq h (PStr a) y = (y = PStr a)"
| "py_eq h (PList xs) y =
     (case y of
        PList ys \<Rightarrow>
          length xs = length ys \<and> list_all (\<lambda>xy. py_eq h (fst xy) (snd xy)) (zip xs ys)
      | _ \<Rightarrow> False)"
| "py_eq h (PDict a) y =
     (case y of
        PDict b \<Rightarrow>
          length a = length b \<and>
          list_all (\<lambda>kv. case map_of b (fst kv) of None \<Rightarrow> False
                                                     | Some w \<Rightarrow> py_eq h (snd kv) w) a
      | _ \<Rightarrow> False)"
| "py_eq h (PShift a) y = (case y of PShift b \<Rightarrow> h a = h b | _ \<Rightarrow> False)"
  by pat_completeness auto
termination
proof (relation "measure (\<lambda>(h, x, y). size x)")
  show "wf (measure (\<lambda>(h, x, y). size x))" by simp
next
  fix h :: "nat \<Rightarrow> shift" and xs ys :: "pyval list" and y :: pyval and xy
  assume "xy \<in> set (zip xs ys)"
  then have "fst xy \<in> set xs" by (metis set_zip_leftD prod.collapse)
  then have "size (fst xy) < Suc (size_list size xs)"
    by (metis less_Suc_eq_le size_list_estimation' order_refl)
  then show "((h, fst xy, snd xy), (h, PList xs, y)) \<in> measure (\<lambda>(h, x, y). size x)"
    by (simp add: case_prod_beta)
next
  fix h :: "nat \<Rightarrow> shift" and a b :: "(string \<times> pyval) list" and y w :: pyval and kv
  assume "kv \<in> set a"
  then have "size_prod (\<lambda>_. 0) size kv \<le> size_list (size_prod (\<lambda>_. 0) size) a"
    by (metis size_list_estimation' order_refl)
  then have "size (snd kv) < Suc (size_list (size_prod (\<lambda>_. 0) size) a)"
    by (cases kv) simp
  then show "((h, snd kv, w), (h, PDict a, y)) \<in> measure (\<lambda>(h, x, y). size x)"
    by simp
qed


text \<open>\<^verbatim>\<open>t in s\<close> for two strings: \<open>t\<close> occurs in \<open>s\<close> as a contiguous piece.\<close>

fun starts_with :: "string \<Rightarrow> string \<Rightarrow> bool" where
  "starts_with [] s = True"
| "starts_with (c # t) [] = False"
| "starts_with (c # t) (d # s) = (c = d \<and> starts_with t s)"

fun py_substring :: "string \<Rightarrow> string \<Rightarrow> bool" where
  "py_substring t [] = (t = [])"
| "py_substring t (d # s) = (starts_with t (d # s) \<or> py_substring t s)"

text \<open>\<^verbatim>\<open>x in c\<close>. A list is searched with \<^verbatim>\<open>==\<close>; a dictionary hashes \<open>x\<close> first
  (lists, dictionaries and \<^verbatim>\<open>Shift\<close> objects are unhashable) and its keys are strings; a
  string accepts only a string on the left; the other values are not containers.\<close>

fun py_in :: "(nat \<Rightarrow> shift) \<Rightarrow> pyval \<Rightarrow> pyval \<Rightarrow> error + bool" where
  "py_in h x (PList ys) = Inr (list_ex (py_eq h x) ys)"
| "py_in h x (PDict kvs) =
     (case x of
        PList _ \<Rightarrow> Inl TypeError
      | PDict _ \<Rightarrow> Inl TypeError
      | PShift _ \<Rightarrow> Inl TypeError
      | PStr k \<Rightarrow> Inr (k \<in> set (map fst kvs))
      | _ \<Rightarrow> Inr False)"
| "py_in h x (PStr s) = (case x of PStr t \<Rightarrow> Inr (py_substring t s) | _ \<Rightarrow> Inl TypeError)"
| "py_in h x PNone = Inl TypeError"
| "py_in h x (PBool b) = Inl TypeError"
| "py_in h x (PInt i) = Inl TypeError"
| "py_in h x (PShift a) = Inl TypeError"

text \<open>\<^verbatim>\<open>c[k]\<close> with a string \<open>k\<close>: only a dictionary accepts it.\<close>

fun py_getitem_str :: "pyval \<Rightarrow> string \<Rightarrow> error + pyval" where
  "py_getitem_str (PDict kvs) k = (case map_of kvs k of None \<Rightarrow> Inl KeyError | Some v \<Rightarrow> Inr v)"
| "py_getitem_str c k = Inl TypeError"

text \<open>\<^verbatim>\<open>c[i]\<close> with an integer \<open>i\<close>: a negative index counts from the end of a list or
  string, and an index outside \<open>-len \<le> i < len\<close> raises \<^verbatim>\<open>IndexError\<close>; a dictionary
  with string keys has no integer key.\<close>

definition py_index :: "'a list \<Rightarrow> int \<Rightarrow> error + 'a" where
  "py_index xs i =
     (if 0 \<le> i \<and> i < int (length xs) then Inr (xs ! nat i)
      else if i < 0 \<and> - int (length xs) \<le> i then Inr (xs ! nat (i + int (length xs)))
      else Inl IndexError)"

fun py_getitem_int :: "pyval \<Rightarrow> int \<Rightarrow> error + pyval" where
  "py_getitem_int (PList xs) i = py_index xs i"
| "py_getitem_int (PStr s) i =
     (case py_index s i of Inl e \<Rightarrow> Inl e | Inr c \<Rightarrow> Inr (PStr [c]))"
| "py_getitem_int (PDict kvs) i = Inl KeyError"
| "py_getitem_int c i = Inl TypeError"

text \<open>\<^verbatim>\<open>len(c)\<close>\<close>

fun py_len :: "pyval \<Rightarrow> error + int" where
  "py_len (PList xs) = Inr (int (length xs))"
| "py_len (PDict kvs) = Inr (int (length kvs))"
| "py_len (PStr s) = Inr (int (length s))"
| "py_len c = Inl TypeError"

text \<open>\<^verbatim>\<open>for x in c\<close>: the elements of a list, the keys of a dictionary, the characters
  of a string.\<close>

fun py_iter :: "pyval \<Rightarrow> error + pyval list" where
  "py_iter (PList xs) = Inr xs"
| "py_iter (PDict kvs) = Inr (map (\<lambda>kv. PStr (fst kv)) kvs)"
| "py_iter (PStr s) = Inr (map (\<lambda>c. PStr [c]) s)"
| "py_iter c = Inl TypeError"



text \<open>An attribute of a \<^verbatim>\<open>Shift\<close> is read or written through a reference to a
  \<^verbatim>\<open>Shift\<close> object; no other value of the model has the attribute.\<close>

fun shift_ref :: "pyval \<Rightarrow> error + nat" where
  "shift_ref (PShift a) = Inr a"
| "shift_ref v = Inl AttributeError"

text \<open>\<^verbatim>\<open>d[k] = v\<close> on a dictionary: an existing key keeps its place, a new key goes
  last.\<close>

fun dict_set :: "(string \<times> pyval) list \<Rightarrow> string \<Rightarrow> pyval \<Rightarrow> (string \<times> pyval) list" where
  "dict_set [] k v = [(k, v)]"
| "dict_set ((k', v') # kvs) k v =
     (if k' = k then (k, v) # kvs else (k', v') # dict_set kvs k v)"

section \<open>The roster\<close>

text \<open>\<^verbatim>\<open>add_employee\<close>\<close>

definition add_employee :: "state \<Rightarrow> employee \<Rightarrow> state" where
  "add_employee s emp = s\<lparr>employees := employees s @ [emp]\<rparr>"

text \<open>\<^verbatim>\<open>remove_employee\<close>: keeps the employees with \<^verbatim>\<open>emp.id != employee_id\<close>.\<close>

definition remove_employee :: "state \<Rightarrow> string \<Rightarrow> state" where
  "remove_employee s eid =
     s\<lparr>employees := filter (\<lambda>emp. \<not> py_eq (store s) (id emp) (PStr eid)) (employees s)\<rparr>"

text \<open>\<^verbatim>\<open>get_employee\<close>: the first employee with \<^verbatim>\<open>emp.id == employee_id\<close>, or
  \<open>None\<close>.\<close>

definition get_employee :: "state \<Rightarrow> string \<Rightarrow> employee option" where
  "get_employee s eid = find (\<lambda>emp. py_eq (store s) (id emp) (PStr eid)) (employees s)"

section \<open>Dates\<close>

text \<open>
  \<^verbatim>\<open>create_weekly_schedule\<close> uses three operations of Python's \<^verbatim>\<open>datetime\<close>:
  \<^verbatim>\<open>strptime(start_date, "%Y-%m-%d")\<close>, the addition of \<^verbatim>\<open>timedelta(days=i)\<close> and
  \<^verbatim>\<open>strftime("%Y-%m-%d")\<close>. A date is a day of the proleptic Gregorian calendar with a
  year from 1 to 9999; the time of day, always midnight here, is left out.
\<close>

record date =
  year :: nat
  month :: nat
  day :: nat

definition is_leap :: "nat \<Rightarrow> bool" where
  "is_leap y = (y mod 4 = 0 \<and> (y mod 100 \<noteq> 0 \<or> y mod 400 = 0))"

definition days_in_month :: "nat \<Rightarrow> nat \<Rightarrow> nat" where
  "days_in_month y m =
     (if m = 2 then (if is_leap y then 29 else 28)
      else if m = 4 \<or> m = 6 \<or> m = 9 \<or> m = 11 then 30
      else 31)"

definition valid_date :: "date \<Rightarrow> bool" where
  "valid_date d =
     (1 \<le> year d \<and> year d \<le> 9999 \<and> 1 \<le> month d \<and> month d \<le> 12 \<and>
      1 \<le> day d \<and> day d \<le> days_in_month (year d) (month d))"

text \<open>The day after, in the calendar.\<close>

definition tomorrow :: "date \<Rightarrow> date" where
  "tomorrow d =
     (if day d < days_in_month (year d) (month d) then d\<lparr>day := day d + 1\<rparr>
      else if month d < 12 then d\<lparr>month := month d + 1, day := 1\<rparr>
      else \<lparr>year = year d + 1, month = 1, day = 1\<rparr>)"

definition plus_days :: "date \<Rightarrow> nat \<Rightarrow> date" where
  "plus_days d n = (tomorrow ^^ n) d"

text \<open>\<^verbatim>\<open>d + datetime.timedelta(days=n)\<close> for \<open>n \<ge> 0\<close>: the date \<open>n\<close> days later, or
  \<^verbatim>\<open>OverflowError\<close> when that date is after 9999-12-31.\<close>

definition add_days :: "date \<Rightarrow> nat \<Rightarrow> error + date" where
  "add_days d n = (if year (plus_days d n) \<le> 9999 then Inr (plus_days d n) else Inl OverflowError)"

text \<open>\<^verbatim>\<open>strftime("%Y-%m-%d")\<close>: the year on four digits, the month and the day on two,
  as the library documents \<^verbatim>\<open>%Y\<close>. (Before Python 3.13 the C library of some
  platforms writes a year below 1000 without the leading zeros.)\<close>

definition digit_char :: "nat \<Rightarrow> char" where
  "digit_char n = ''0123456789'' ! n"

definition dec2 :: "nat \<Rightarrow> string" where
  "dec2 n = [digit_char (n div 10 mod 10), digit_char (n mod 10)]"

definition dec4 :: "nat \<Rightarrow> string" where
  "dec4 n = dec2 (n div 100) @ dec2 n"

definition strftime_ymd :: "date \<Rightarrow> string" where
  "strftime_ymd d = dec4 (year d) @ ''-'' @ dec2 (month d) @ ''-'' @ dec2 (day d)"

text \<open>
  \<^verbatim>\<open>strptime(s, "%Y-%m-%d")\<close>. The library matches the string against
  \<^verbatim>\<open>(\d\d\d\d)-(1[0-2]|0[1-9]|[1-9])-(3[0-1]|[1-2]\d|0[1-9]|[1-9]| [1-9])\<close>, the whole of
  the string, then builds the date, and raises \<^verbatim>\<open>ValueError\<close> when the string does not
  match, when text remains or when the calendar has no such day.
\<close>

definition digit_val :: "char \<Rightarrow> nat option" where
  "digit_val c =
     (if (48::nat) \<le> of_char c \<and> of_char c \<le> (57::nat) then Some (of_char c - 48) else None)"

definition nonzero_digit :: "char \<Rightarrow> nat option" where
  "nonzero_digit c = (case digit_val c of Some n \<Rightarrow> (if n = 0 then None else Some n) | None \<Rightarrow> None)"

text \<open>The month and the dash after it; what remains is the text of the day.\<close>

definition month_and_dash :: "string \<Rightarrow> (nat \<times> string) option" where
  "month_and_dash s =
     (case s of
        a # b # rest \<Rightarrow>
          (case rest of
             c # rest' \<Rightarrow>
               (if a = CHR ''1'' \<and> (b = CHR ''0'' \<or> b = CHR ''1'' \<or> b = CHR ''2'') \<and> c = CHR ''-''
                then Some (10 + the (digit_val b), rest')
                else if a = CHR ''0'' \<and> nonzero_digit b \<noteq> None \<and> c = CHR ''-''
                then Some (the (nonzero_digit b), rest')
                else if nonzero_digit a \<noteq> None \<and> b = CHR ''-''
                then Some (the (nonzero_digit a), rest)
                else None)
           | [] \<Rightarrow>
               (if nonzero_digit a \<noteq> None \<and> b = CHR ''-''
                then Some (the (nonzero_digit a), rest)
                else None))
      | _ \<Rightarrow> None)"

text \<open>The day, which must be the rest of the string.\<close>

definition day_to_end :: "string \<Rightarrow> nat option" where
  "day_to_end s =
     (case s of
        [a] \<Rightarrow> nonzero_digit a
      | [a, b] \<Rightarrow>
          (if a = CHR ''3'' \<and> (b = CHR ''0'' \<or> b = CHR ''1'') then Some (30 + the (digit_val b))
           else if (a = CHR ''1'' \<or> a = CHR ''2'') \<and> digit_val b \<noteq> None
           then Some (10 * the (digit_val a) + the (digit_val b))
           else if a = CHR ''0'' \<or> a = CHR '' '' then nonzero_digit b
           else None)
      | _ \<Rightarrow> None)"

definition strptime_ymd :: "string \<Rightarrow> error + date" where
  "strptime_ymd s =
     (case s of
        y1 # y2 # y3 # y4 # dash # rest \<Rightarrow>
          (case (digit_val y1, digit_val y2, digit_val y3, digit_val y4) of
             (Some a, Some b, Some c, Some d) \<Rightarrow>
               (if dash \<noteq> CHR ''-'' then Inl ValueError
                else
                  (case month_and_dash rest of
                     None \<Rightarrow> Inl ValueError
                   | Some (m, rest') \<Rightarrow>
                       (case day_to_end rest' of
                          None \<Rightarrow> Inl ValueError
                        | Some dd \<Rightarrow>
                            (let r = \<lparr>year = 1000 * a + 100 * b + 10 * c + d, month = m, day = dd\<rparr>
                             in if valid_date r then Inr r else Inl ValueError))))
           | _ \<Rightarrow> Inl ValueError)
      | _ \<Rightarrow> Inl ValueError)"

text \<open>Two notions for the proofs about dates: a month and a day that the calendar has,
  whatever the year, and a number that grows with the date.\<close>

definition wf_md :: "date \<Rightarrow> bool" where
  "wf_md d = (1 \<le> month d \<and> month d \<le> 12 \<and> 1 \<le> day d \<and> day d \<le> days_in_month (year d) (month d))"

definition date_key :: "date \<Rightarrow> nat" where
  "date_key d = (year d * 12 + month d) * 31 + day d"

section \<open>Creating the weekly schedule\<close>

definition days :: "string list" where
  "days = [''Monday'', ''Tuesday'', ''Wednesday'', ''Thursday'', ''Friday'', ''Saturday'',
           ''Sunday'']"

text \<open>\<^verbatim>\<open>d.get(k, default)\<close>: only a dictionary has the method.\<close>

fun py_get :: "pyval \<Rightarrow> string \<Rightarrow> pyval \<Rightarrow> error + pyval" where
  "py_get (PDict kvs) k dflt = (case map_of kvs k of None \<Rightarrow> Inr dflt | Some v \<Rightarrow> Inr v)"
| "py_get c k dflt = Inl AttributeError"

text \<open>The loop \<^verbatim>\<open>for i, day in enumerate(days)\<close> over the pairs that remain, with the
  dictionary \<^verbatim>\<open>schedule\<close> built so far.\<close>

fun fill_schedule ::
  "date \<Rightarrow> pyval \<Rightarrow> (nat \<times> string) list \<Rightarrow> (string \<times> pyval) list \<Rightarrow>
   error + (string \<times> pyval) list" where
  "fill_schedule start shifts_per_day [] sched = Inr sched"
| "fill_schedule start shifts_per_day ((i, label) # rest) sched =
     (case add_days start i of
        Inl e \<Rightarrow> Inl e
      | Inr current_date \<Rightarrow>
          (case py_get shifts_per_day label (PList []) of
             Inl e \<Rightarrow> Inl e
           | Inr shifts \<Rightarrow>
               fill_schedule start shifts_per_day rest
                 (dict_set sched (strftime_ymd current_date)
                    (PDict [(''day'', PStr label), (''shifts'', shifts)]))))"

text \<open>\<^verbatim>\<open>create_weekly_schedule\<close>: \<^verbatim>\<open>self.schedule\<close> is assigned after the loop, so a
  call that raises leaves the state as it was.\<close>

definition create_weekly_schedule :: "state \<Rightarrow> string \<Rightarrow> pyval \<Rightarrow> pyval outcome \<times> state" where
  "create_weekly_schedule s start_date shifts_per_day =
     (case strptime_ymd start_date of
        Inl e \<Rightarrow> (Raised e, s)
      | Inr start \<Rightarrow>
          (case fill_schedule start shifts_per_day (enumerate 0 days) [] of
             Inl e \<Rightarrow> (Raised e, s)
           | Inr sched \<Rightarrow> (Returned (PDict sched), s\<lparr>schedule := PDict sched\<rparr>)))"

text \<open>The entry of the created schedule for a pair \<open>(i, label)\<close> of
  \<^verbatim>\<open>enumerate(days)\<close>, when the template is the dictionary \<open>t\<close>.\<close>

definition week_entry :: "date \<Rightarrow> (string \<times> pyval) list \<Rightarrow> nat \<times> string \<Rightarrow> string \<times> pyval" where
  "week_entry start t p =
     (strftime_ymd (plus_days start (fst p)),
      PDict [(''day'', PStr (snd p)),
             (''shifts'', case map_of t (snd p) of None \<Rightarrow> PList [] | Some v \<Rightarrow> v)])"

section \<open>Assigning an employee to a shift\<close>

text \<open>\<^verbatim>\<open>self.schedule[date][k]\<close>\<close>

definition schedule_day_field :: "state \<Rightarrow> string \<Rightarrow> string \<Rightarrow> error + pyval" where
  "schedule_day_field s date k =
     (case py_getitem_str (schedule s) date of
        Inl e \<Rightarrow> Inl e
      | Inr day_data \<Rightarrow> py_getitem_str day_data k)"

text \<open>\<^verbatim>\<open>x.employee_id = employee_id\<close> on the \<^verbatim>\<open>Shift\<close> object at address \<open>a\<close>.\<close>

definition set_employee_id :: "state \<Rightarrow> nat \<Rightarrow> string \<Rightarrow> state" where
  "set_employee_id s a eid = s\<lparr>store := (store s)(a := (store s a)\<lparr>employee_id := Some eid\<rparr>)\<rparr>"

text \<open>
  \<^verbatim>\<open>assign_employee_to_shift\<close>, condition by condition in the order of the source.
  The result is what the call returns or raises, and the state it leaves.
  \<^enum> \<^verbatim>\<open>date in self.schedule and shift_index < len(self.schedule[date]["shifts"])\<close>:
    the comparison has no lower bound;
  \<^enum> \<^verbatim>\<open>employee = self.get_employee(employee_id)\<close>;
  \<^enum> \<^verbatim>\<open>employee and self.schedule[date]["day"] in employee.available_days\<close>: an
    \<^verbatim>\<open>Employee\<close> object is always true in a condition;
  \<^enum> \<^verbatim>\<open>self.schedule[date]["shifts"][shift_index].employee_id = employee_id\<close>, then
    \<^verbatim>\<open>return True\<close>;
  \<^enum> \<^verbatim>\<open>return False\<close> in every other case.
\<close>

definition assign_employee_to_shift ::
  "state \<Rightarrow> string \<Rightarrow> int \<Rightarrow> string \<Rightarrow> bool outcome \<times> state" where
  "assign_employee_to_shift s date shift_index eid =
     (case py_in (store s) (PStr date) (schedule s) of
        Inl e \<Rightarrow> (Raised e, s)
      | Inr present \<Rightarrow>
          if \<not> present then (Returned False, s)
          else
            (case schedule_day_field s date ''shifts'' of
               Inl e \<Rightarrow> (Raised e, s)
             | Inr shifts \<Rightarrow>
                 (case py_len shifts of
                    Inl e \<Rightarrow> (Raised e, s)
                  | Inr n \<Rightarrow>
                      if \<not> shift_index < n then (Returned False, s)
                      else
                        (case get_employee s eid of
                           None \<Rightarrow> (Returned False, s)
                         | Some emp \<Rightarrow>
                             (case schedule_day_field s date ''day'' of
                                Inl e \<Rightarrow> (Raised e, s)
                              | Inr label \<Rightarrow>
                                  (case py_in (store s) label (available_days emp) of
                                     Inl e \<Rightarrow> (Raised e, s)
                                   | Inr available \<Rightarrow>
                                       if \<not> available then (Returned False, s)
                                       else
                                         (case schedule_day_field s date ''shifts'' of
                                            Inl e \<Rightarrow> (Raised e, s)
                                          | Inr shifts' \<Rightarrow>
                                              (case py_getitem_int shifts' shift_index of
                                                 Inl e \<Rightarrow> (Raised e, s)
                                               | Inr x \<Rightarrow>
                                                   (case shift_ref x of
                                                      Inl e \<Rightarrow> (Raised e, s)
                                                    | Inr a \<Rightarrow>
                                                        (Returned True,
                                                         set_employee_id s a eid))))))))))"

section \<open>Exporting and printing the schedule\<close>


subsection \<open>\<^verbatim>\<open>export_to_csv\<close>\<close>





subsection \<open>\<^verbatim>\<open>export_to_html\<close>\<close>






subsection \<open>\<^verbatim>\<open>print_schedule\<close>\<close>






section \<open>Saving and loading\<close>

text \<open>
  A JSON document, as \<^verbatim>\<open>json.dump\<close> writes it and \<^verbatim>\<open>json.load\<close> reads it. What the
  two do with the text of the file is the library's: a file is absent, or holds text that
  is not JSON, or holds a document. Numbers are integers.
\<close>

datatype json =
    JNull
  | JBool bool
  | JInt int
  | JStr string
  | JArr "json list"
  | JObj "(string \<times> json) list"

datatype file_state = Absent | Not_json | Document json

text \<open>\<^verbatim>\<open>json.load\<close>: the Python value of a document. An object becomes a dictionary; of
  two members with the same name the later value wins.\<close>

fun of_json :: "json \<Rightarrow> pyval" where
  "of_json JNull = PNone"
| "of_json (JBool b) = PBool b"
| "of_json (JInt i) = PInt i"
| "of_json (JStr s) = PStr s"
| "of_json (JArr xs) = PList (map of_json xs)"
| "of_json (JObj kvs) = PDict (fold (\<lambda>kv d. dict_set d (fst kv) (of_json (snd kv))) kvs [])"

text \<open>The encoding of \<^verbatim>\<open>json.dump\<close>: \<open>None\<close> stands for the \<^verbatim>\<open>TypeError\<close> that the
  encoder raises at an object it cannot serialise, here a \<^verbatim>\<open>Shift\<close>.\<close>

fun to_json :: "pyval \<Rightarrow> json option" where
  "to_json PNone = Some JNull"
| "to_json (PBool b) = Some (JBool b)"
| "to_json (PInt i) = Some (JInt i)"
| "to_json (PStr s) = Some (JStr s)"
| "to_json (PList xs) = map_option JArr (those (map to_json xs))"
| "to_json (PDict kvs) =
     map_option JObj (those (map (\<lambda>kv. map_option (Pair (fst kv)) (to_json (snd kv))) kvs))"
| "to_json (PShift a) = None"

text \<open>\<^verbatim>\<open>dataclasses.asdict\<close>: a dataclass object becomes the dictionary of its fields, also
  inside lists and dictionaries.\<close>

definition shift_dict :: "shift \<Rightarrow> pyval" where
  "shift_dict x =
     PDict [(''start_time'', PStr (start_time x)), (''end_time'', PStr (end_time x)),
            (''position'', PStr (position x)),
            (''employee_id'', case employee_id x of None \<Rightarrow> PNone | Some e \<Rightarrow> PStr e)]"

fun asdict_inner :: "(nat \<Rightarrow> shift) \<Rightarrow> pyval \<Rightarrow> pyval" where
  "asdict_inner h (PList xs) = PList (map (asdict_inner h) xs)"
| "asdict_inner h (PDict kvs) = PDict (map (\<lambda>kv. (fst kv, asdict_inner h (snd kv))) kvs)"
| "asdict_inner h (PShift a) = shift_dict (h a)"
| "asdict_inner h v = v"

definition asdict :: "(nat \<Rightarrow> shift) \<Rightarrow> employee \<Rightarrow> pyval" where
  "asdict h emp =
     PDict [(''name'', asdict_inner h (name emp)), (''id'', asdict_inner h (id emp)),
            (''department'', asdict_inner h (department emp)),
            (''max_hours_per_week'', asdict_inner h (max_hours_per_week emp)),
            (''available_days'', asdict_inner h (available_days emp))]"

text \<open>
  \<^verbatim>\<open>save_data\<close>. The dictionary \<open>data\<close> holds the employees through \<^verbatim>\<open>asdict\<close> and the
  schedule as it is. The file is opened for writing, which empties it, before
  \<^verbatim>\<open>json.dump\<close> runs: when the encoder raises, the file is left with no document in
  it. The state of the generator is not changed.
\<close>

definition save_data ::
  "state \<Rightarrow> string \<Rightarrow> (string \<Rightarrow> file_state) \<Rightarrow> unit outcome \<times> (string \<Rightarrow> file_state)" where
  "save_data s filename files =
     (let data = PDict [(''employees'', PList (map (asdict (store s)) (employees s))),
                        (''schedule'', schedule s)]
      in case to_json data of
           None \<Rightarrow> (Raised TypeError, files(filename := Not_json))
         | Some doc \<Rightarrow> (Returned (), files(filename := Document doc)))"

text \<open>
  \<^verbatim>\<open>Employee(**emp_data)\<close>: \<open>emp_data\<close> must be a dictionary, its keys must be names of
  fields, and \<open>name\<close> and \<open>id\<close>, which have no default, must be among them; otherwise
  the call raises \<^verbatim>\<open>TypeError\<close>.
\<close>

definition employee_fields :: "string list" where
  "employee_fields = [''name'', ''id'', ''department'', ''max_hours_per_week'', ''available_days'']"

definition field_or :: "(string \<times> pyval) list \<Rightarrow> string \<Rightarrow> pyval \<Rightarrow> pyval" where
  "field_or kvs k dflt = (case map_of kvs k of None \<Rightarrow> dflt | Some v \<Rightarrow> v)"

fun employee_of :: "pyval \<Rightarrow> error + employee" where
  "employee_of (PDict kvs) =
     (if list_all (\<lambda>k. k \<in> set employee_fields) (map fst kvs) \<and>
         ''name'' \<in> set (map fst kvs) \<and> ''id'' \<in> set (map fst kvs)
      then Inr (Employee (field_or kvs ''name'' PNone) (field_or kvs ''id'' PNone)
                  (field_or kvs ''department'' PNone)
                  (field_or kvs ''max_hours_per_week'' (PInt 40))
                  (field_or kvs ''available_days'' PNone))
      else Inl TypeError)"
| "employee_of v = Inl TypeError"

text \<open>The comprehension \<^verbatim>\<open>[Employee(**emp_data) for emp_data in ...]\<close>: the first error
  ends it.\<close>

fun employees_of :: "pyval list \<Rightarrow> error + employee list" where
  "employees_of [] = Inr []"
| "employees_of (x # xs) =
     (case employee_of x of
        Inl e \<Rightarrow> Inl e
      | Inr emp \<Rightarrow> (case employees_of xs of Inl e \<Rightarrow> Inl e | Inr emps \<Rightarrow> Inr (emp # emps)))"

text \<open>\<^verbatim>\<open>[Employee(**emp_data) for emp_data in data.get("employees", [])]\<close>\<close>

definition loaded_employees :: "pyval \<Rightarrow> error + employee list" where
  "loaded_employees data =
     (case py_get data ''employees'' (PList []) of
        Inl e \<Rightarrow> Inl e
      | Inr v \<Rightarrow> (case py_iter v of Inl e \<Rightarrow> Inl e | Inr xs \<Rightarrow> employees_of xs))"

text \<open>The two messages that \<^verbatim>\<open>load_data\<close> prints.\<close>

definition not_found_message :: "string \<Rightarrow> string" where
  "not_found_message filename = ''File '' @ filename @ '' not found''"

definition invalid_json_message :: "string \<Rightarrow> string" where
  "invalid_json_message filename = ''Invalid JSON in '' @ filename"

text \<open>
  \<^verbatim>\<open>load_data\<close>: what the call returns or raises, the state it leaves and the lines it
  prints. \<^verbatim>\<open>FileNotFoundError\<close> and \<^verbatim>\<open>json.JSONDecodeError\<close> are caught, each with its
  message and \<^verbatim>\<open>return False\<close>; any other error leaves the method. \<^verbatim>\<open>self.employees\<close>
  is assigned before \<^verbatim>\<open>self.schedule\<close> is computed.
\<close>

definition load_data ::
  "state \<Rightarrow> string \<Rightarrow> (string \<Rightarrow> file_state) \<Rightarrow> bool outcome \<times> state \<times> string list" where
  "load_data s filename files =
     (case files filename of
        Absent \<Rightarrow> (Returned False, s, [not_found_message filename])
      | Not_json \<Rightarrow> (Returned False, s, [invalid_json_message filename])
      | Document doc \<Rightarrow>
          (case loaded_employees (of_json doc) of
             Inl e \<Rightarrow> (Raised e, s, [])
           | Inr emps \<Rightarrow>
               (case py_get (of_json doc) ''schedule'' (PDict []) of
                  Inl e \<Rightarrow> (Raised e, s\<lparr>employees := emps\<rparr>, [])
                | Inr sched \<Rightarrow> (Returned True, s\<lparr>employees := emps, schedule := sched\<rparr>, []))))"

section \<open>Example data\<close>

text \<open>Three \<^verbatim>\<open>Shift\<close> objects, at the addresses 0, 1 and 2: two as the template of
  the command loop builds them, and one that already has an employee. Every other address
  holds an empty shift.\<close>

definition example_store :: "nat \<Rightarrow> shift" where
  "example_store =
     (\<lambda>a. Shift [] [] [])
       (0 := Shift ''09:00'' ''17:00'' ''Manager'',
        1 := Shift ''10:00'' ''18:00'' ''Sales Associate'',
        2 := (Shift ''12:00'' ''20:00'' ''Weekend Staff'')\<lparr>employee_id := Some ''E2''\<rparr>)"

text \<open>A template with shifts on Monday and on Sunday only.\<close>

definition example_template :: "(string \<times> pyval) list" where
  "example_template =
     [(''Monday'', PList [PShift 0, PShift 1]), (''Sunday'', PList [PShift 2])]"

text \<open>Three employees, two of them with the id \<open>E1\<close>; all with the default of the
  constructor for the other fields.\<close>

definition example_roster :: "employee list" where
  "example_roster =
     [Employee (PStr ''Ann'') (PStr ''E1'') PNone (PInt 40) PNone,
      Employee (PStr ''Bob'') (PStr ''E1'') PNone (PInt 40) PNone,
      Employee (PStr ''Cy'') (PStr ''E2'') PNone (PInt 40) (PList [PStr ''Sunday''])]"

text \<open>A schedule of one day with the two shifts, in the shape
  \<^verbatim>\<open>create_weekly_schedule\<close> gives a day.\<close>

definition example_day :: pyval where
  "example_day = PDict [(''day'', PStr ''Monday''), (''shifts'', PList [PShift 0, PShift 1])]"


text \<open>The week that \<^verbatim>\<open>create_weekly_schedule\<close> builds from the template for the
  start date 2024-02-23.\<close>

definition example_week :: "(string \<times> pyval) list" where
  "example_week =
     [(''2024-02-23'', PDict [(''day'', PStr ''Monday''), (''shifts'', PList [PShift 0, PShift 1])]),
      (''2024-02-24'', PDict [(''day'', PStr ''Tuesday''), (''shifts'', PList [])]),
      (''2024-02-25'', PDict [(''day'', PStr ''Wednesday''), (''shifts'', PList [])]),
      (''2024-02-26'', PDict [(''day'', PStr ''Thursday''), (''shifts'', PList [])]),
      (''2024-02-27'', PDict [(''day'', PStr ''Friday''), (''shifts'', PList [])]),
      (''2024-02-28'', PDict [(''day'', PStr ''Saturday''), (''shifts'', PList [])]),
      (''2024-02-29'', PDict [(''day'', PStr ''Sunday''), (''shifts'', PList [PShift 2])])]"


definition example_state :: state where
  "example_state =
     \<lparr>employees = example_roster,
      schedule = PDict [(''2024-01-01'', example_day)],
      store = example_store\<rparr>"

section \<open>Properties of dates and of the weekly schedule\<close>


lemma strptime_ymd_valid: "strptime_ymd s = Inr d \<Longrightarrow> valid_date d"
  unfolding strptime_ymd_def
  by (auto split: list.splits option.splits if_splits prod.splits simp: Let_def)

lemma days_in_month_bounds: "1 \<le> days_in_month y m \<and> days_in_month y m \<le> 31"
  by (simp add: days_in_month_def)

lemma tomorrow_wf: "wf_md d \<Longrightarrow> wf_md (tomorrow d)"
  using days_in_month_bounds [of "year d" "month d + 1"] days_in_month_bounds [of "year d + 1" 1]
  by (auto simp: wf_md_def tomorrow_def)

lemma tomorrow_key: "wf_md d \<Longrightarrow> date_key d < date_key (tomorrow d)"
  using days_in_month_bounds [of "year d" "month d"]
  by (auto simp: wf_md_def tomorrow_def date_key_def)

lemma tomorrow_year: "year d \<le> year (tomorrow d)"
  by (simp add: tomorrow_def)

lemma plus_days_Suc: "plus_days d (Suc n) = tomorrow (plus_days d n)"
  by (simp add: plus_days_def)

lemma plus_days_0: "plus_days d 0 = d"
  by (simp add: plus_days_def)

lemma plus_days_wf: "wf_md d \<Longrightarrow> wf_md (plus_days d n)"
  by (induction n) (simp_all add: plus_days_0 plus_days_Suc tomorrow_wf)

lemma plus_days_key_mono: "wf_md d \<Longrightarrow> i < j \<Longrightarrow> date_key (plus_days d i) < date_key (plus_days d j)"
proof (induction j)
  case 0
  then show ?case by simp
next
  case (Suc j)
  have step: "date_key (plus_days d j) < date_key (plus_days d (Suc j))"
    using tomorrow_key [OF plus_days_wf [OF Suc.prems(1)]] by (simp add: plus_days_Suc)
  show ?case
  proof (cases "i = j")
    case True
    then show ?thesis using step by simp
  next
    case False
    then have "i < j" using Suc.prems(2) by simp
    then show ?thesis using Suc.IH [OF Suc.prems(1)] step by simp
  qed
qed

lemma plus_days_year_mono: "i \<le> j \<Longrightarrow> year (plus_days d i) \<le> year (plus_days d j)"
proof (induction j)
  case 0
  then show ?case by simp
next
  case (Suc j)
  show ?case
  proof (cases "i = Suc j")
    case True
    then show ?thesis by simp
  next
    case False
    then have "i \<le> j" using Suc.prems by simp
    then show ?thesis
      using Suc.IH tomorrow_year [of "plus_days d j"] by (simp add: plus_days_Suc)
  qed
qed

lemma digit_char_inj: "a < 10 \<Longrightarrow> b < 10 \<Longrightarrow> digit_char a = digit_char b \<Longrightarrow> a = b"
proof -
  assume a: "a < 10" and b: "b < 10" and e: "digit_char a = digit_char b"
  have d: "distinct ''0123456789''" by simp
  have "a < length ''0123456789''" "b < length ''0123456789''" using a b by simp_all
  then show "a = b" using e d unfolding digit_char_def
    by (metis nth_eq_iff_index_eq)
qed

lemma dec2_eq: "dec2 a = dec2 b \<Longrightarrow> a mod 100 = b mod 100"
proof -
  assume e: "dec2 a = dec2 b"
  have hi: "a div 10 mod 10 = b div 10 mod 10"
    using e by (auto simp: dec2_def intro: digit_char_inj)
  have lo: "a mod 10 = b mod 10"
    using e by (auto simp: dec2_def intro: digit_char_inj)
  have "a mod (10 * 10) = 10 * (a div 10 mod 10) + a mod 10"
       "b mod (10 * 10) = 10 * (b div 10 mod 10) + b mod 10"
    by (rule mod_mult2_eq)+
  then show ?thesis using hi lo by simp
qed

lemma dec4_eq: "a < 10000 \<Longrightarrow> b < 10000 \<Longrightarrow> dec4 a = dec4 b \<Longrightarrow> a = b"
proof -
  assume a: "a < 10000" and b: "b < 10000" and e: "dec4 a = dec4 b"
  have e1: "dec2 (a div 100) = dec2 (b div 100)" and e2: "dec2 a = dec2 b"
    using e unfolding dec4_def dec2_def by simp_all
  have "a div 100 < 100" "b div 100 < 100" using a b by simp_all
  then have hi: "a div 100 = b div 100" using dec2_eq [OF e1] by simp
  have lo: "a mod 100 = b mod 100" using dec2_eq [OF e2] .
  show "a = b" using hi lo by (metis div_mult_mod_eq)
qed

lemma strftime_ymd_inj:
  assumes "year d \<le> 9999" "year d' \<le> 9999" "wf_md d" "wf_md d'"
    and "strftime_ymd d = strftime_ymd d'"
  shows "d = d'"
proof -
  have parts: "dec4 (year d) = dec4 (year d')" "dec2 (month d) = dec2 (month d')"
              "dec2 (day d) = dec2 (day d')"
    using assms(5) unfolding strftime_ymd_def dec4_def dec2_def by simp_all
  have y: "year d = year d'"
    using dec4_eq [OF _ _ parts(1)] assms(1,2) by simp
  have "month d < 100" "month d' < 100" using assms(3,4) by (simp_all add: wf_md_def)
  then have m: "month d = month d'" using dec2_eq [OF parts(2)] by simp
  have "day d \<le> 31" "day d' \<le> 31"
    using assms(3,4) days_in_month_bounds [of "year d" "month d"]
          days_in_month_bounds [of "year d'" "month d'"]
    by (simp_all add: wf_md_def)
  then have dd: "day d = day d'" using dec2_eq [OF parts(3)] by simp
  show ?thesis using y m dd by simp
qed

lemma dict_set_fresh: "k \<notin> fst ` set kvs \<Longrightarrow> dict_set kvs k v = kvs @ [(k, v)]"
  by (induction kvs) auto


lemma valid_date_wf_md: "valid_date d \<Longrightarrow> wf_md d"
  by (simp add: valid_date_def wf_md_def)

lemma week_keys_inj:
  assumes "wf_md start" "year (plus_days start n) \<le> 9999"
  shows "inj_on (\<lambda>i. strftime_ymd (plus_days start i)) {..n}"
proof (rule inj_onI)
  fix i j
  assume i: "i \<in> {..n}" and j: "j \<in> {..n}"
    and e: "strftime_ymd (plus_days start i) = strftime_ymd (plus_days start j)"
  have yi: "year (plus_days start i) \<le> 9999"
    using plus_days_year_mono [of i n start] i assms(2) by simp
  have yj: "year (plus_days start j) \<le> 9999"
    using plus_days_year_mono [of j n start] j assms(2) by simp
  have same: "plus_days start i = plus_days start j"
    using strftime_ymd_inj [OF yi yj plus_days_wf [OF assms(1)] plus_days_wf [OF assms(1)] e] .
  show "i = j"
  proof (rule ccontr)
    assume "i \<noteq> j"
    then consider "i < j" | "j < i" by linarith
    then show False
      using plus_days_key_mono [OF assms(1), of i j] plus_days_key_mono [OF assms(1), of j i] same
      by cases simp_all
  qed
qed

lemma fill_schedule_result:
  assumes "\<forall>p \<in> set ps. year (plus_days start (fst p)) \<le> 9999"
    and "distinct (map (\<lambda>p. strftime_ymd (plus_days start (fst p))) ps)"
    and "\<forall>p \<in> set ps. strftime_ymd (plus_days start (fst p)) \<notin> fst ` set sched"
  shows "fill_schedule start (PDict t) ps sched = Inr (sched @ map (week_entry start t) ps)"
  using assms
proof (induction ps arbitrary: sched)
  case Nil
  then show ?case by simp
next
  case (Cons p ps)
  obtain i label where p: "p = (i, label)" by (cases p)
  let ?k = "strftime_ymd (plus_days start i)"
  let ?v = "PDict [(''day'', PStr label),
                   (''shifts'', case map_of t label of None \<Rightarrow> PList [] | Some v \<Rightarrow> v)]"
  have fresh: "?k \<notin> fst ` set sched" using Cons.prems(3) p by simp
  have year: "year (plus_days start i) \<le> 9999" using Cons.prems(1) p by simp
  have step: "fill_schedule start (PDict t) (p # ps) sched =
              fill_schedule start (PDict t) ps (sched @ [(?k, ?v)])"
    using year by (simp add: p add_days_def dict_set_fresh [OF fresh] split: option.splits)
  have rest1: "\<forall>q \<in> set ps. year (plus_days start (fst q)) \<le> 9999"
    using Cons.prems(1) by simp
  have rest2: "distinct (map (\<lambda>q. strftime_ymd (plus_days start (fst q))) ps)"
    using Cons.prems(2) by simp
  have rest3: "\<forall>q \<in> set ps. strftime_ymd (plus_days start (fst q)) \<notin> fst ` set (sched @ [(?k, ?v)])"
  proof
    fix q
    assume q: "q \<in> set ps"
    have "strftime_ymd (plus_days start (fst q)) \<noteq> ?k"
      using Cons.prems(2) p q by (auto simp: image_iff)
    moreover have "strftime_ymd (plus_days start (fst q)) \<notin> fst ` set sched"
      using Cons.prems(3) q by simp
    ultimately show "strftime_ymd (plus_days start (fst q)) \<notin> fst ` set (sched @ [(?k, ?v)])"
      by simp
  qed
  show ?case
    using Cons.IH [OF rest1 rest2 rest3] step by (simp add: week_entry_def p)
qed

lemma enumerate_days: "enumerate 0 days = map (\<lambda>i. (i, days ! i)) [0..<7]"
  by (simp add: days_def enumerate_eq_zip upt_rec numeral_eq_Suc)

lemma create_weekly_schedule_result:
  assumes "strptime_ymd start_date = Inr start" and "year (plus_days start 6) \<le> 9999"
  shows "create_weekly_schedule s start_date (PDict t) =
           (Returned (PDict (map (\<lambda>i. week_entry start t (i, days ! i)) [0..<7])),
            s\<lparr>schedule := PDict (map (\<lambda>i. week_entry start t (i, days ! i)) [0..<7])\<rparr>)"
proof -
  have wf: "wf_md start" using strptime_ymd_valid [OF assms(1)] by (rule valid_date_wf_md)
  have inj: "inj_on (\<lambda>i. strftime_ymd (plus_days start i)) {..6}"
    using week_keys_inj [OF wf assms(2)] .
  let ?ps = "map (\<lambda>i. (i, days ! i)) [0..<7]"
  have a1: "\<forall>p \<in> set ?ps. year (plus_days start (fst p)) \<le> 9999"
  proof
    fix p
    assume "p \<in> set ?ps"
    then have "fst p \<le> 6" by auto
    then show "year (plus_days start (fst p)) \<le> 9999"
      using plus_days_year_mono [of "fst p" 6 start] assms(2) by simp
  qed
  have "distinct (map (\<lambda>i. strftime_ymd (plus_days start i)) [0..<7])"
    by (rule distinct_map [THEN iffD2]) (auto intro: inj_on_subset [OF inj])
  then have a2: "distinct (map (\<lambda>p. strftime_ymd (plus_days start (fst p))) ?ps)"
    by (simp add: comp_def)
  have a3: "\<forall>p \<in> set ?ps. strftime_ymd (plus_days start (fst p)) \<notin> fst ` set []"
    by simp
  have "fill_schedule start (PDict t) ?ps [] = Inr ([] @ map (week_entry start t) ?ps)"
    by (rule fill_schedule_result [OF a1 a2 a3])
  then show ?thesis
    by (simp add: create_weekly_schedule_def assms(1) enumerate_days comp_def)
qed

lemma plus_days_numeral:
  "plus_days d (numeral n) = tomorrow (plus_days d (pred_numeral n))"
  by (simp add: plus_days_def numeral_eq_Suc)

lemma tomorrow_record:
  "tomorrow \<lparr>year = y, month = m, day = dd\<rparr> =
     (if dd < days_in_month y m then \<lparr>year = y, month = m, day = dd + 1\<rparr>
      else if m < 12 then \<lparr>year = y, month = m + 1, day = 1\<rparr>
      else \<lparr>year = y + 1, month = 1, day = 1\<rparr>)"
  by (simp add: tomorrow_def)

lemmas plus_days_eval = plus_days_numeral plus_days_Suc plus_days_0 tomorrow_record
  days_in_month_def is_leap_def

lemmas strftime_eval = strftime_ymd_def dec4_def dec2_def digit_char_def

lemma upt_7: "[0..<7] = [0, 1, 2, 3, 4, 5, 6]"
  by (simp add: upt_rec)

lemma strptime_example: "strptime_ymd ''2024-02-23'' = Inr \<lparr>year = 2024, month = 2, day = 23\<rparr>"
  by (simp add: strptime_ymd_def digit_val_def nonzero_digit_def month_and_dash_def day_to_end_def
        valid_date_def days_in_month_def is_leap_def)

lemma strptime_late: "strptime_ymd ''9999-12-29'' = Inr \<lparr>year = 9999, month = 12, day = 29\<rparr>"
  by (simp add: strptime_ymd_def digit_val_def nonzero_digit_def month_and_dash_def day_to_end_def
        valid_date_def days_in_month_def)

text \<open>
  Claim C6, amended. A start date that \<^verbatim>\<open>strptime\<close> accepts and that is at most
  9999-12-25, so that the six days after it exist in \<^verbatim>\<open>datetime\<close>, gives a schedule of
  exactly seven entries in the order of the dates: the entry at offset \<open>i\<close> has the date
  \<open>i\<close> days after the start as its key, the \<open>i\<close>-th name of Monday to Sunday as its
  label, whatever weekday the date is, and as its shifts the template's value for that
  name, or the empty list when the template has none. The seven keys are distinct. The
  schedule replaces the one of the state and is returned.
\<close>

theorem create_weekly_schedule_week:
  assumes "strptime_ymd start_date = Inr start" and "year (plus_days start 6) \<le> 9999"
  shows
    "create_weekly_schedule s start_date (PDict t) =
       (Returned (PDict (map (\<lambda>i. week_entry start t (i, days ! i)) [0..<7])),
        s\<lparr>schedule := PDict (map (\<lambda>i. week_entry start t (i, days ! i)) [0..<7])\<rparr>) \<and>
     map fst (map (\<lambda>i. week_entry start t (i, days ! i)) [0..<7]) =
       map (\<lambda>i. strftime_ymd (plus_days start i)) [0..<7] \<and>
     distinct (map (\<lambda>i. strftime_ymd (plus_days start i)) [0..<7]) \<and>
     days = [''Monday'', ''Tuesday'', ''Wednesday'', ''Thursday'', ''Friday'', ''Saturday'',
             ''Sunday'']"
proof -
  have wf: "wf_md start" using strptime_ymd_valid [OF assms(1)] by (rule valid_date_wf_md)
  have "inj_on (\<lambda>i. strftime_ymd (plus_days start i)) {..6}"
    using week_keys_inj [OF wf assms(2)] .
  then have inj: "inj_on (\<lambda>i. strftime_ymd (plus_days start i)) (set [0..<7])"
    by (rule inj_on_subset) auto
  have d: "distinct (map (\<lambda>i. strftime_ymd (plus_days start i)) [0..<7])"
    using inj by (simp add: distinct_map)
  have k: "map fst (map (\<lambda>i. week_entry start t (i, days ! i)) [0..<7]) =
           map (\<lambda>i. strftime_ymd (plus_days start i)) [0..<7]"
    by (simp add: week_entry_def comp_def)
  show ?thesis
    using create_weekly_schedule_result [OF assms] d k by (simp add: days_def)
qed



lemma example_week_dates:
  "plus_days \<lparr>year = 2024, month = 2, day = 23\<rparr> (Suc 0) = \<lparr>year = 2024, month = 2, day = 24\<rparr>"
  "plus_days \<lparr>year = 2024, month = 2, day = 23\<rparr> 2 = \<lparr>year = 2024, month = 2, day = 25\<rparr>"
  "plus_days \<lparr>year = 2024, month = 2, day = 23\<rparr> 3 = \<lparr>year = 2024, month = 2, day = 26\<rparr>"
  "plus_days \<lparr>year = 2024, month = 2, day = 23\<rparr> 4 = \<lparr>year = 2024, month = 2, day = 27\<rparr>"
  "plus_days \<lparr>year = 2024, month = 2, day = 23\<rparr> 5 = \<lparr>year = 2024, month = 2, day = 28\<rparr>"
  "plus_days \<lparr>year = 2024, month = 2, day = 23\<rparr> 6 = \<lparr>year = 2024, month = 2, day = 29\<rparr>"
  by (simp_all add: plus_days_eval)

lemma example_week_keys:
  "strftime_ymd \<lparr>year = 2024, month = 2, day = 23\<rparr> = ''2024-02-23''"
  "strftime_ymd \<lparr>year = 2024, month = 2, day = 24\<rparr> = ''2024-02-24''"
  "strftime_ymd \<lparr>year = 2024, month = 2, day = 25\<rparr> = ''2024-02-25''"
  "strftime_ymd \<lparr>year = 2024, month = 2, day = 26\<rparr> = ''2024-02-26''"
  "strftime_ymd \<lparr>year = 2024, month = 2, day = 27\<rparr> = ''2024-02-27''"
  "strftime_ymd \<lparr>year = 2024, month = 2, day = 28\<rparr> = ''2024-02-28''"
  "strftime_ymd \<lparr>year = 2024, month = 2, day = 29\<rparr> = ''2024-02-29''"
  by (simp_all add: strftime_eval)

lemma late_week_dates:
  "plus_days \<lparr>year = 9999, month = 12, day = 29\<rparr> (Suc 0) = \<lparr>year = 9999, month = 12, day = 30\<rparr>"
  "plus_days \<lparr>year = 9999, month = 12, day = 29\<rparr> 2 = \<lparr>year = 9999, month = 12, day = 31\<rparr>"
  "year (plus_days \<lparr>year = 9999, month = 12, day = 29\<rparr> 3) = 10000"
  by (simp_all add: plus_days_eval)

theorem create_weekly_schedule_week_witness:
  "strptime_ymd ''2024-02-23'' = Inr \<lparr>year = 2024, month = 2, day = 23\<rparr> \<and>
   year (plus_days \<lparr>year = 2024, month = 2, day = 23\<rparr> 6) \<le> 9999 \<and>
   create_weekly_schedule example_state ''2024-02-23'' (PDict example_template) =
     (Returned (PDict
        [(''2024-02-23'', PDict [(''day'', PStr ''Monday''), (''shifts'', PList [PShift 0, PShift 1])]),
         (''2024-02-24'', PDict [(''day'', PStr ''Tuesday''), (''shifts'', PList [])]),
         (''2024-02-25'', PDict [(''day'', PStr ''Wednesday''), (''shifts'', PList [])]),
         (''2024-02-26'', PDict [(''day'', PStr ''Thursday''), (''shifts'', PList [])]),
         (''2024-02-27'', PDict [(''day'', PStr ''Friday''), (''shifts'', PList [])]),
         (''2024-02-28'', PDict [(''day'', PStr ''Saturday''), (''shifts'', PList [])]),
         (''2024-02-29'', PDict [(''day'', PStr ''Sunday''), (''shifts'', PList [PShift 2])])]),
      example_state\<lparr>schedule := PDict
        [(''2024-02-23'', PDict [(''day'', PStr ''Monday''), (''shifts'', PList [PShift 0, PShift 1])]),
         (''2024-02-24'', PDict [(''day'', PStr ''Tuesday''), (''shifts'', PList [])]),
         (''2024-02-25'', PDict [(''day'', PStr ''Wednesday''), (''shifts'', PList [])]),
         (''2024-02-26'', PDict [(''day'', PStr ''Thursday''), (''shifts'', PList [])]),
         (''2024-02-27'', PDict [(''day'', PStr ''Friday''), (''shifts'', PList [])]),
         (''2024-02-28'', PDict [(''day'', PStr ''Saturday''), (''shifts'', PList [])]),
         (''2024-02-29'', PDict [(''day'', PStr ''Sunday''), (''shifts'', PList [PShift 2])])]\<rparr>)"
proof -
  have h1: "strptime_ymd ''2024-02-23'' = Inr \<lparr>year = 2024, month = 2, day = 23\<rparr>"
    by (rule strptime_example)
  have h2: "year (plus_days \<lparr>year = 2024, month = 2, day = 23\<rparr> 6) \<le> 9999"
    by (simp add: example_week_dates)
  show ?thesis
    using h1 h2 create_weekly_schedule_week [OF h1 h2, of example_state example_template]
    by (simp add: upt_7 week_entry_def days_def example_template_def example_week_dates
          example_week_keys plus_days_0)
qed

text \<open>The claim as stated, for every well-formed start date, fails in the last six days
  of the year 9999: the start date parses and the call raises \<^verbatim>\<open>OverflowError\<close>.\<close>

theorem create_weekly_schedule_overflow:
  "strptime_ymd ''9999-12-29'' = Inr \<lparr>year = 9999, month = 12, day = 29\<rparr> \<and>
   create_weekly_schedule example_state ''9999-12-29'' (PDict example_template) =
     (Raised OverflowError, example_state)"
proof -
  have e: "enumerate 0 days = [(0, ''Monday''), (Suc 0, ''Tuesday''), (2, ''Wednesday''),
             (3, ''Thursday''), (4, ''Friday''), (5, ''Saturday''), (6, ''Sunday'')]"
    by (simp add: days_def)
  show ?thesis
    by (simp add: strptime_late create_weekly_schedule_def e add_days_def late_week_dates
          plus_days_0 example_template_def)
qed


text \<open>
  Claim C10. \<^verbatim>\<open>create_weekly_schedule\<close> installs the value the template has for a
  day name as it is: the same list of references to the same \<^verbatim>\<open>Shift\<close> objects. No
  object of the store is changed by the call, so a shift of the template that already
  has an employee id has it in the new schedule.
\<close>

theorem create_weekly_schedule_shares_shifts:
  assumes "strptime_ymd start_date = Inr start" and "year (plus_days start 6) \<le> 9999"
    and "i < 7" and "map_of t (days ! i) = Some shifts"
  shows
    "schedule_day_field (snd (create_weekly_schedule s start_date (PDict t)))
       (strftime_ymd (plus_days start i)) ''shifts'' = Inr shifts \<and>
     schedule_day_field (snd (create_weekly_schedule s start_date (PDict t)))
       (strftime_ymd (plus_days start i)) ''day'' = Inr (PStr (days ! i)) \<and>
     store (snd (create_weekly_schedule s start_date (PDict t))) = store s"
proof -
  let ?week = "map (\<lambda>i. week_entry start t (i, days ! i)) [0..<7]"
  have res: "snd (create_weekly_schedule s start_date (PDict t)) = s\<lparr>schedule := PDict ?week\<rparr>"
    using create_weekly_schedule_result [OF assms(1,2), of s t] by simp
  have wf: "wf_md start" using strptime_ymd_valid [OF assms(1)] by (rule valid_date_wf_md)
  have "inj_on (\<lambda>i. strftime_ymd (plus_days start i)) {..6}"
    using week_keys_inj [OF wf assms(2)] .
  then have inj: "inj_on (\<lambda>i. strftime_ymd (plus_days start i)) (set [0..<7])"
    by (rule inj_on_subset) auto
  have keys: "map fst ?week = map (\<lambda>i. strftime_ymd (plus_days start i)) [0..<7]"
    by (simp add: week_entry_def comp_def)
  have "distinct (map (\<lambda>i. strftime_ymd (plus_days start i)) [0..<7])"
    using inj by (simp add: distinct_map)
  then have dist: "distinct (map fst ?week)"
    by (simp only: keys)
  have mem: "week_entry start t (i, days ! i) \<in> set ?week"
    using assms(3) by simp
  have look: "map_of ?week (strftime_ymd (plus_days start i)) =
              Some (PDict [(''day'', PStr (days ! i)), (''shifts'', shifts)])"
    using map_of_is_SomeI [OF dist, of "strftime_ymd (plus_days start i)"
            "PDict [(''day'', PStr (days ! i)), (''shifts'', shifts)]"] mem assms(4)
    by (simp add: week_entry_def)
  show ?thesis
    by (simp add: res schedule_day_field_def look)
qed

theorem create_weekly_schedule_shares_shifts_witness:
  "strptime_ymd ''2024-02-23'' = Inr \<lparr>year = 2024, month = 2, day = 23\<rparr> \<and>
   year (plus_days \<lparr>year = 2024, month = 2, day = 23\<rparr> 6) \<le> 9999 \<and>
   (6::nat) < 7 \<and>
   map_of example_template (days ! 6) = Some (PList [PShift 2]) \<and>
   employee_id (store example_state 2) = Some ''E2'' \<and>
   schedule_day_field
     (snd (create_weekly_schedule example_state ''2024-02-23'' (PDict example_template)))
     ''2024-02-29'' ''shifts'' = Inr (PList [PShift 2]) \<and>
   employee_id
     (store (snd (create_weekly_schedule example_state ''2024-02-23'' (PDict example_template))) 2)
     = Some ''E2''"
proof -
  have h1: "strptime_ymd ''2024-02-23'' = Inr \<lparr>year = 2024, month = 2, day = 23\<rparr>"
    by (rule strptime_example)
  have h2: "year (plus_days \<lparr>year = 2024, month = 2, day = 23\<rparr> 6) \<le> 9999"
    by (simp add: example_week_dates)
  have h3: "(6::nat) < 7" by simp
  have h4: "map_of example_template (days ! 6) = Some (PList [PShift 2])"
    by (simp add: example_template_def days_def)
  have st: "employee_id (store example_state 2) = Some ''E2''"
    by (simp add: example_state_def example_store_def)
  show ?thesis
    using h1 h2 h4 st create_weekly_schedule_shares_shifts [OF h1 h2 h3 h4, of example_state]
    by (simp add: example_week_dates example_week_keys)
qed

section \<open>Properties of the roster\<close>

lemma py_eq_PStr: "py_eq h x (PStr t) = (x = PStr t)"
  by (cases x) auto

text \<open>
  Claim C8. After \<^verbatim>\<open>remove_employee(i)\<close> the roster holds no employee with the id
  \<open>i\<close>, however many it held before, and \<^verbatim>\<open>get_employee(i)\<close> returns \<open>None\<close>.
  Removing an id that no employee has returns normally and leaves the state as it was.
  The schedule and the \<^verbatim>\<open>Shift\<close> objects are never touched.
\<close>

theorem remove_employee_clears_id:
  "(\<forall>emp \<in> set (employees (remove_employee s eid)). id emp \<noteq> PStr eid) \<and>
   get_employee (remove_employee s eid) eid = None \<and>
   (get_employee s eid = None \<longrightarrow> remove_employee s eid = s) \<and>
   schedule (remove_employee s eid) = schedule s \<and>
   store (remove_employee s eid) = store s"
proof -
  have gone: "\<forall>emp \<in> set (employees (remove_employee s eid)). id emp \<noteq> PStr eid"
    by (simp add: remove_employee_def py_eq_PStr)
  have lookup: "get_employee (remove_employee s eid) eid = None"
    by (simp add: get_employee_def remove_employee_def find_None_iff py_eq_PStr)
  have absent: "get_employee s eid = None \<longrightarrow> remove_employee s eid = s"
  proof
    assume "get_employee s eid = None"
    then have "\<forall>emp \<in> set (employees s). id emp \<noteq> PStr eid"
      by (simp add: get_employee_def find_None_iff py_eq_PStr)
    then have "filter (\<lambda>emp. \<not> py_eq (store s) (id emp) (PStr eid)) (employees s) = employees s"
      by (simp add: py_eq_PStr)
    then show "remove_employee s eid = s"
      by (simp add: remove_employee_def)
  qed
  show ?thesis
    using gone lookup absent by (simp add: remove_employee_def)
qed


theorem remove_employee_clears_id_witness:
  "length (filter (\<lambda>emp. id emp = PStr ''E1'') (employees example_state)) = 2 \<and>
   map id (employees (remove_employee example_state ''E1'')) = [PStr ''E2''] \<and>
   get_employee (remove_employee example_state ''E1'') ''E1'' = None \<and>
   get_employee example_state ''E9'' = None \<and>
   remove_employee example_state ''E9'' = example_state"
  using remove_employee_clears_id [of example_state "''E1''"]
        remove_employee_clears_id [of example_state "''E9''"]
  by (simp add: example_state_def example_roster_def Employee_def remove_employee_def
                get_employee_def py_eq_PStr)

section \<open>Properties of the assignment\<close>

text \<open>
  Claim C5. When \<^verbatim>\<open>assign_employee_to_shift\<close> returns \<open>False\<close>, the state after the
  call is the state before it: the roster, the schedule and every \<^verbatim>\<open>Shift\<close> object.
  The same holds when the call raises: only a call that returns \<open>True\<close> changes the
  state.
\<close>

theorem assign_failure_leaves_state:
  "assign_employee_to_shift s date shift_index eid = (r, s') \<Longrightarrow> r \<noteq> Returned True \<Longrightarrow> s' = s"
  unfolding assign_employee_to_shift_def
  by (auto split: sum.splits option.splits if_splits)

theorem assign_failure_leaves_state_witness:
  "assign_employee_to_shift example_state ''2024-01-01'' 5 ''E1'' = (Returned False, example_state) \<and>
   Returned False \<noteq> Returned True \<and> example_state = example_state"
  using assign_failure_leaves_state
          [of example_state "''2024-01-01''" 5 "''E1''" "Returned False" example_state]
  by (simp add: assign_employee_to_shift_def example_state_def example_day_def
                schedule_day_field_def)

lemma example_assign_facts:
  "py_in (store example_state) (PStr ''2024-01-01'') (schedule example_state) = Inr True"
  "schedule_day_field example_state ''2024-01-01'' ''shifts'' = Inr (PList [PShift 0, PShift 1])"
  "schedule_day_field example_state ''2024-01-01'' ''day'' = Inr (PStr ''Monday'')"
  "get_employee example_state ''E1'' = Some (Employee (PStr ''Ann'') (PStr ''E1'') PNone (PInt 40) PNone)"
  "py_in (store example_state) (PStr ''Monday'')
     (available_days (Employee (PStr ''Ann'') (PStr ''E1'') PNone (PInt 40) PNone)) = Inr True"
  by (simp_all add: example_state_def example_day_def schedule_day_field_def get_employee_def
        example_roster_def Employee_def default_available_days_def py_eq_PStr)

text \<open>
  Claim C1 asks for success exactly when, among the other conditions, the index is within
  \<open>0 \<le> i < len\<close>. The source tests only \<^verbatim>\<open>shift_index < len(...)\<close>: the index \<open>-1\<close>
  passes the test, Python's indexing takes the last shift of the day, and the call
  returns \<open>True\<close> after assigning the employee to it.
\<close>

theorem assign_negative_index_succeeds:
  "(-1::int) < 0 \<and>
   assign_employee_to_shift example_state ''2024-01-01'' (-1) ''E1'' =
     (Returned True, set_employee_id example_state 1 ''E1'') \<and>
   employee_id (store (set_employee_id example_state 1 ''E1'') 1) = Some ''E1''"
  by (simp add: assign_employee_to_shift_def example_assign_facts py_index_def shift_ref.simps
        set_employee_id_def)

text \<open>
  Claim C3 asks that a call with an index outside the list returns \<open>False\<close> and never
  raises. With two shifts on the day the index \<open>-3\<close> passes the test
  \<^verbatim>\<open>shift_index < len(...)\<close> and the subscript raises \<^verbatim>\<open>IndexError\<close>.
\<close>

theorem assign_index_below_range_raises:
  "assign_employee_to_shift example_state ''2024-01-01'' (-3) ''E1'' =
     (Raised IndexError, example_state)"
  by (simp add: assign_employee_to_shift_def example_assign_facts py_index_def)

text \<open>
  What the source does for an index that is not negative, on a day of the shape
  \<^verbatim>\<open>create_weekly_schedule\<close> gives it and with employees whose \<open>available_days\<close> are
  lists: the call returns \<open>True\<close> exactly when the index is below the length, the id is
  the id of an employee, and the label of the day is among the days of the first such
  employee; it then sets the \<open>employee_id\<close> of the addressed shift, whatever it was
  before. In every other case it returns \<open>False\<close> and the state is unchanged.
\<close>

lemma get_employee_member: "get_employee s eid = Some emp \<Longrightarrow> emp \<in> set (employees s)"
  by (auto simp: get_employee_def find_Some_iff)

lemma assign_in_range:
  assumes "schedule s = PDict sched" and "map_of sched date = Some (PDict dd)"
    and "map_of dd ''shifts'' = Some (PList xs)" and "map_of dd ''day'' = Some label"
    and "\<forall>emp \<in> set (employees s). \<exists>ds. available_days emp = PList ds"
    and "0 \<le> i" and "i < int (length xs) \<longrightarrow> xs ! nat i = PShift a"
  shows "assign_employee_to_shift s date i eid =
           (if i < int (length xs) \<and>
               (\<exists>emp. get_employee s eid = Some emp \<and>
                      py_in (store s) label (available_days emp) = Inr True)
            then (Returned True, set_employee_id s a eid)
            else (Returned False, s))"
proof -
  have "date \<in> fst ` set sched"
    using assms(2) by (metis map_of_eq_None_iff option.distinct(1))
  then have present: "py_in (store s) (PStr date) (schedule s) = Inr True"
    by (simp add: assms(1))
  have f1: "schedule_day_field s date ''shifts'' = Inr (PList xs)"
    by (simp add: schedule_day_field_def assms)
  have f2: "schedule_day_field s date ''day'' = Inr label"
    by (simp add: schedule_day_field_def assms)
  have avail: "\<And>emp. get_employee s eid = Some emp \<Longrightarrow>
                 \<exists>b. py_in (store s) label (available_days emp) = Inr b"
    using assms(5) get_employee_member by fastforce
  show ?thesis
  proof (cases "get_employee s eid")
    case None
    then show ?thesis
      by (simp add: assign_employee_to_shift_def present f1 f2)
  next
    case (Some emp)
    obtain b where b: "py_in (store s) label (available_days emp) = Inr b"
      using avail [OF Some] by blast
    show ?thesis
      using assms(6,7)
      by (simp add: assign_employee_to_shift_def present f1 f2 Some b py_index_def)
  qed
qed

section \<open>Properties of the exports\<close>












section \<open>Properties of saving and loading\<close>




lemma dict_set_keys: "fst ` set (dict_set d k v) = insert k (fst ` set d)"
proof (induction d)
  case Nil
  show ?case by simp
next
  case (Cons p d)
  obtain k' v' where p: "p = (k', v')" by (cases p)
  show ?case
  proof (cases "k' = k")
    case True
    then show ?thesis by (simp add: p)
  next
    case False
    then show ?thesis using Cons.IH by (simp add: p insert_commute)
  qed
qed








lemma example_created:
  "create_weekly_schedule example_state ''2024-02-23'' (PDict example_template) =
     (Returned (PDict example_week), example_state\<lparr>schedule := PDict example_week\<rparr>)"
proof -
  have h2: "year (plus_days \<lparr>year = 2024, month = 2, day = 23\<rparr> 6) \<le> 9999"
    by (simp add: example_week_dates)
  show ?thesis
    using create_weekly_schedule_result [OF strptime_example h2, of example_state example_template]
    by (simp add: upt_7 week_entry_def days_def example_template_def example_week_dates
          example_week_keys plus_days_0 example_week_def)
qed

text \<open>
  Claim C2 asks that \<^verbatim>\<open>save_data\<close> followed by \<^verbatim>\<open>load_data\<close> gives back the store. The
  employees are converted with \<^verbatim>\<open>asdict\<close> before \<^verbatim>\<open>json.dump\<close>, the schedule is not: on
  a schedule created from a template with a shift, \<^verbatim>\<open>json.dump\<close> meets a \<^verbatim>\<open>Shift\<close>
  object and raises \<^verbatim>\<open>TypeError\<close>, and the file, already opened for writing, holds no
  document, so that \<^verbatim>\<open>load_data\<close> on it returns \<open>False\<close>.
\<close>

theorem save_data_raises_on_shift:
  "save_data (snd (create_weekly_schedule example_state ''2024-02-23'' (PDict example_template)))
     ''data.json'' (\<lambda>f. Absent) =
     (Raised TypeError, (\<lambda>f. Absent)(''data.json'' := Not_json)) \<and>
   load_data (init example_store) ''data.json'' ((\<lambda>f. Absent)(''data.json'' := Not_json)) =
     (Returned False, init example_store, [''Invalid JSON in data.json''])"
  by (simp add: example_created save_data_def example_week_def load_data_def
        invalid_json_message_def split: option.splits)

end
